theory Spec2Isabelle
  imports Main "HOL-Library.AList"
begin

section \<open>Values, exceptions and regular expressions\<close>

text \<open>
  The extractors of \<^verbatim>\<open>youtube_dlc/extractor/vlive.py\<close> work on decoded JSON
  documents, raise Python exceptions and match URLs and pages against regular expressions.
  A JSON value is a \<open>json\<close>; Python's \<^verbatim>\<open>None\<close> is \<open>JNull\<close>, a dict is
  an association list read with \<open>map_of\<close>. Numbers are the integers (the fields the
  extractors read are sequence numbers and counters).
\<close>

datatype json =
    JNull
  | JBool bool
  | JInt int
  | JStr string
  | JArr "json list"
  | JObj "(string \<times> json) list"

text \<open>
  An exception is a value of \<open>error\<close>. \<open>ExtractorError msg expected cause\<close> is
  \<^verbatim>\<open>ExtractorError(msg, expected=..., cause=...)\<close>; the cause of a failed download is
  the HTTP error with its status code and response body.
\<close>

datatype cause = HTTPError int string | OtherCause string

datatype error =
    ExtractorError string bool "cause option"
  | LoginRequired json
  | KeyError string
  | TypeError
  | AttributeError
  | IndexError
  | ValueError
  | AssertionError
  | OtherError string

subsection \<open>Python's operations on values\<close>

text \<open>\<^verbatim>\<open>bool(x)\<close>, the test behind \<^verbatim>\<open>if x\<close>, \<^verbatim>\<open>not x\<close> and \<^verbatim>\<open>x or y\<close>.\<close>

fun truthy :: "json \<Rightarrow> bool" where
  "truthy JNull = False"
| "truthy (JBool b) = b"
| "truthy (JInt i) = (i \<noteq> 0)"
| "truthy (JStr s) = (s \<noteq> [])"
| "truthy (JArr xs) = (xs \<noteq> [])"
| "truthy (JObj kvs) = (kvs \<noteq> [])"

text \<open>\<^verbatim>\<open>x[k]\<close> for a string key: only a dict that has the key answers.\<close>

fun subscript :: "json \<Rightarrow> string \<Rightarrow> error + json" where
  "subscript (JObj kvs) k = (case map_of kvs k of None \<Rightarrow> Inl (KeyError k) | Some v \<Rightarrow> Inr v)"
| "subscript _ k = Inl TypeError"

text \<open>\<^verbatim>\<open>x.get(k)\<close> and \<^verbatim>\<open>x.get(k, d)\<close>: a method of dicts only.\<close>

fun get_default :: "json \<Rightarrow> string \<Rightarrow> json \<Rightarrow> error + json" where
  "get_default (JObj kvs) k d = (case map_of kvs k of None \<Rightarrow> Inr d | Some v \<Rightarrow> Inr v)"
| "get_default _ k d = Inl AttributeError"

definition get :: "json \<Rightarrow> string \<Rightarrow> error + json" where
  "get x k = get_default x k JNull"

text \<open>Decimal numerals, as \<^verbatim>\<open>str\<close> and \<^verbatim>\<open>%d\<close> print integers.\<close>

definition digit_char :: "nat \<Rightarrow> char" where
  "digit_char d = ''0123456789'' ! (d mod 10)"

function str_of_nat :: "nat \<Rightarrow> string" where
  "str_of_nat n = (if n < 10 then [digit_char n] else str_of_nat (n div 10) @ [digit_char n])"
  by pat_completeness auto
termination
  by (relation "measure (\<lambda>n. n)") auto

declare str_of_nat.simps [simp del]

definition str_of_int :: "int \<Rightarrow> string" where
  "str_of_int i = (if i < 0 then CHR ''-'' # str_of_nat (nat (- i)) else str_of_nat (nat i))"

text \<open>
  \<^verbatim>\<open>compat_str(x)\<close> and the \<^verbatim>\<open>%s\<close> conversion. What Python prints for a list or a
  dict depends on the interpreter (\<^verbatim>\<open>repr\<close> of the elements), so it is the parameter
  \<open>repr\<close>.
\<close>

fun compat_str :: "(json \<Rightarrow> string) \<Rightarrow> json \<Rightarrow> string" where
  "compat_str repr JNull = ''None''"
| "compat_str repr (JBool b) = (if b then ''True'' else ''False'')"
| "compat_str repr (JInt i) = str_of_int i"
| "compat_str repr (JStr s) = s"
| "compat_str repr v = repr v"

text \<open>
  \<^verbatim>\<open>template % args\<close> for the templates of the module: each \<^verbatim>\<open>%s\<close> or \<^verbatim>\<open>%d\<close>
  takes the next (already printed) argument.
\<close>

fun fmt :: "string \<Rightarrow> string list \<Rightarrow> string" where
  "fmt [] args = []"
| "fmt [c] args = [c]"
| "fmt (c # d # cs) args =
     (if c = CHR ''%'' \<and> (d = CHR ''s'' \<or> d = CHR ''d'')
      then (case args of [] \<Rightarrow> fmt cs [] | a # as \<Rightarrow> a @ fmt cs as)
      else c # fmt (d # cs) args)"

text \<open>\<^verbatim>\<open>s.split(sep)\<close> for a one-character separator.\<close>

fun split_on :: "char \<Rightarrow> string \<Rightarrow> string list" where
  "split_on sep [] = [[]]"
| "split_on sep (c # cs) =
     (if c = sep then [] # split_on sep cs
      else (case split_on sep cs of [] \<Rightarrow> [[c]] | w # ws \<Rightarrow> (c # w) # ws))"

text \<open>
  \<^verbatim>\<open>try_get(src, getter, expected_type)\<close> of \<^verbatim>\<open>utils\<close>: the getter's value when it
  has the expected type, \<^verbatim>\<open>None\<close> when it has not or when the getter raises one of
  \<^verbatim>\<open>AttributeError, KeyError, TypeError, IndexError\<close>; any other exception passes.
\<close>

definition try_get :: "json \<Rightarrow> (json \<Rightarrow> error + json) \<Rightarrow> (json \<Rightarrow> bool) \<Rightarrow> error + json" where
  "try_get src getter expected_type =
     (case getter src of
        Inl AttributeError \<Rightarrow> Inr JNull
      | Inl (KeyError k) \<Rightarrow> Inr JNull
      | Inl TypeError \<Rightarrow> Inr JNull
      | Inl IndexError \<Rightarrow> Inr JNull
      | Inl e \<Rightarrow> Inl e
      | Inr v \<Rightarrow> if expected_type v then Inr v else Inr JNull)"

fun is_bool :: "json \<Rightarrow> bool" where
  "is_bool (JBool b) = True"
| "is_bool _ = False"

fun is_list :: "json \<Rightarrow> bool" where
  "is_list (JArr xs) = True"
| "is_list _ = False"

fun is_str :: "json \<Rightarrow> bool" where
  "is_str (JStr s) = True"
| "is_str _ = False"

subsection \<open>Regular expressions\<close>

text \<open>
  The fragment of Python's \<^verbatim>\<open>re\<close> the module uses: literals, sequence, alternation,
  the greedy \<^verbatim>\<open>?\<close>, greedy \<^verbatim>\<open>*\<close> and \<^verbatim>\<open>+\<close> over a character class, and
  capturing groups. \<open>rmatch\<close> is the backtracking matcher as a list of successes: every
  way the expression matches a prefix of the text, in the order the matcher tries them
  (an alternative's left branch first, a greedy repetition longest first), each with the
  groups captured so far and the text that remains.
\<close>

datatype cls = In "char list" | NotIn "char list"

fun in_cls :: "cls \<Rightarrow> char \<Rightarrow> bool" where
  "in_cls (In cs) c = (c \<in> set cs)"
| "in_cls (NotIn cs) c = (c \<notin> set cs)"

datatype rx =
    Lit string
  | Seq rx rx
  | Alt rx rx
  | Opt rx
  | Star cls
  | Plus cls
  | Group string rx

type_synonym groups = "(string \<times> string) list"

fun strip_lit :: "string \<Rightarrow> string \<Rightarrow> string option" where
  "strip_lit [] s = Some s"
| "strip_lit (c # w) [] = None"
| "strip_lit (c # w) (d # s) = (if c = d then strip_lit w s else None)"

fun rmatch :: "rx \<Rightarrow> groups \<times> string \<Rightarrow> (groups \<times> string) list" where
  "rmatch (Lit w) (g, s) = (case strip_lit w s of None \<Rightarrow> [] | Some r \<Rightarrow> [(g, r)])"
| "rmatch (Seq a b) x = concat (map (rmatch b) (rmatch a x))"
| "rmatch (Alt a b) x = rmatch a x @ rmatch b x"
| "rmatch (Opt a) x = rmatch a x @ [x]"
| "rmatch (Star c) (g, s) =
     map (\<lambda>k. (g, drop k s)) (rev [0 ..< Suc (length (takeWhile (in_cls c) s))])"
| "rmatch (Plus c) (g, s) =
     map (\<lambda>k. (g, drop k s)) (rev [1 ..< Suc (length (takeWhile (in_cls c) s))])"
| "rmatch (Group n a) (g, s) =
     map (\<lambda>(g', r). ((n, take (length s - length r) s) # g', r)) (rmatch a (g, s))"

fun cat :: "rx list \<Rightarrow> rx" where
  "cat [] = Lit []"
| "cat [r] = r"
| "cat (r # rs) = Seq r (cat rs)"

text \<open>\<^verbatim>\<open>re.match\<close>: the first success at the start of the text, as its groups.\<close>

definition re_match :: "rx \<Rightarrow> string \<Rightarrow> groups option" where
  "re_match p s = (case rmatch p ([], s) of [] \<Rightarrow> None | (g, r) # _ \<Rightarrow> Some g)"

text \<open>\<^verbatim>\<open>re.search\<close>: the first start position with a match.\<close>

fun re_search :: "rx \<Rightarrow> string \<Rightarrow> groups option" where
  "re_search p [] = re_match p []"
| "re_search p (c # s) =
     (case re_match p (c # s) of Some g \<Rightarrow> Some g | None \<Rightarrow> re_search p s)"

text \<open>The character classes of the module's patterns.\<close>

definition digit :: cls where
  "digit = In ''0123456789''"

definition digit_upper :: cls where
  "digit_upper = In ''0123456789ABCDEFGHIJKLMNOPQRSTUVWXYZ''"

definition space :: cls where
  "space = In [CHR '' '', CHR 0x09, CHR 0x0A, CHR 0x0D, CHR 0x0C, CHR 0x0B]"

section \<open>URL patterns\<close>

text \<open>
  \<^verbatim>\<open>VLiveIE._VALID_URL =
  r'https?://(?:(?:www|m)\.)?vlive\.tv/(?:video|embed)/(?P<id>[0-9]+)'\<close>
\<close>

definition VLiveIE_VALID_URL :: rx where
  "VLiveIE_VALID_URL =
     cat [Lit ''http'', Opt (Lit ''s''), Lit ''://'',
          Opt (Seq (Alt (Lit ''www'') (Lit ''m'')) (Lit ''.'')),
          Lit ''vlive.tv/'', Alt (Lit ''video'') (Lit ''embed''), Lit ''/'',
          Group ''id'' (Plus digit)]"

text \<open>
  \<^verbatim>\<open>VLiveChannelIE._VALID_URL =
  r'https?://(?:channels\.vlive\.tv|(?:(?:www|m)\.)?vlive\.tv/channel)/(?P<id>[0-9A-Z]+)'\<close>
\<close>

definition VLiveChannelIE_VALID_URL :: rx where
  "VLiveChannelIE_VALID_URL =
     cat [Lit ''http'', Opt (Lit ''s''), Lit ''://'',
          Alt (Lit ''channels.vlive.tv'')
              (cat [Opt (Seq (Alt (Lit ''www'') (Lit ''m'')) (Lit ''.'')),
                    Lit ''vlive.tv/channel'']),
          Lit ''/'', Group ''id'' (Plus digit_upper)]"

text \<open>
  \<^verbatim>\<open>VLivePlaylistIE._VALID_URL =
  r'https?://(?:(?:www|m)\.)?vlive\.tv/video/(?P<video_id>[0-9]+)/playlist/(?P<id>[0-9]+)'\<close>
\<close>

definition VLivePlaylistIE_VALID_URL :: rx where
  "VLivePlaylistIE_VALID_URL =
     cat [Lit ''http'', Opt (Lit ''s''), Lit ''://'',
          Opt (Seq (Alt (Lit ''www'') (Lit ''m'')) (Lit ''.'')),
          Lit ''vlive.tv/video/'', Group ''video_id'' (Plus digit),
          Lit ''/playlist/'', Group ''id'' (Plus digit)]"

text \<open>
  \<^verbatim>\<open>InfoExtractor._match_id\<close>: \<^verbatim>\<open>m = re.match(_VALID_URL, url); assert m;
  return compat_str(m.group('id'))\<close>.
\<close>

definition match_id :: "rx \<Rightarrow> string \<Rightarrow> error + string" where
  "match_id valid_url url =
     (case re_match valid_url url of
        None \<Rightarrow> Inl AssertionError
      | Some g \<Rightarrow> (case map_of g ''id'' of None \<Rightarrow> Inr ''None'' | Some v \<Rightarrow> Inr v))"

text \<open>
  The two patterns searched in a playlist page:
  \<^verbatim>\<open>r'playlistVideoSeqs\s*=\s*(\[[^]]+\])'\<close> and
  \<^verbatim>\<open>r'<div[^>]+class="[^"]*multicam_playlist[^>]*>\s*<h3[^>]+>([^<]+)'\<close>.
  The unnamed group is group \<open>1\<close>.
\<close>

definition playlist_video_seqs :: rx where
  "playlist_video_seqs =
     cat [Lit ''playlistVideoSeqs'', Star space, Lit ''='', Star space,
          Group ''1'' (cat [Lit ''['', Plus (NotIn '']''), Lit '']''])]"

definition playlist_title :: rx where
  "playlist_title =
     cat [Lit ''<div'', Plus (NotIn ''>''), Lit ''class=\"'', Star (NotIn ''\"''),
          Lit ''multicam_playlist'', Star (NotIn ''>''), Lit ''>'', Star space,
          Lit ''<h3'', Plus (NotIn ''>''), Lit ''>'', Group ''1'' (Plus (NotIn ''<''))]"

section \<open>The world outside the module\<close>

text \<open>
  What the extractors do to the world is the HTTP requests they send and the lines they
  print. A \<open>request\<close> is what a download method of \<^verbatim>\<open>InfoExtractor\<close> is called with;
  the \<open>state\<close> is the log of the requests sent so far and of the lines printed with
  \<^verbatim>\<open>to_screen\<close>.
\<close>

record request =
  req_url :: string
  req_id :: json
  req_note :: "string option"
  req_query :: "(string \<times> json) list"
  req_headers :: "(string \<times> string) list"
  req_data :: "(string \<times> string) list option"

record state =
  requests :: "request list"
  screen :: "string list"

text \<open>
  The collaborators of the module that are not part of it are the fields of \<open>env\<close>:
  the server behind the download methods (its answer may depend on every request sent
  before), the credentials and options of the downloader, and the helpers of
  \<^verbatim>\<open>InfoExtractor\<close>, \<^verbatim>\<open>NaverBaseIE\<close> and \<^verbatim>\<open>utils\<close> whose results the module
  only passes on. The two stream extractors send requests of their own, which they return.
\<close>

record env =
  download_json :: "request list \<Rightarrow> request \<Rightarrow> error + json"
  download_webpage :: "request list \<Rightarrow> request \<Rightarrow> error + string"
  request_webpage :: "request list \<Rightarrow> request \<Rightarrow> error + unit"
  get_login_info :: "string option \<times> string option"
  params :: "(string \<times> json) list"
  json_loads :: "string \<Rightarrow> error + json"
  parse_json :: "string \<Rightarrow> error + json"
  clean_html :: "string \<Rightarrow> string"
  py_repr :: "json \<Rightarrow> string"
  int_or_none :: "json \<Rightarrow> json"
  merge_dicts :: "(string \<times> json) list \<Rightarrow> (string \<times> json) list \<Rightarrow> (string \<times> json) list"
  live_title :: "json \<Rightarrow> error + json"
  extract_video_info ::
    "request list \<Rightarrow> string \<Rightarrow> json \<Rightarrow> json \<Rightarrow> (error + (string \<times> json) list) \<times> request list"
  extract_m3u8_formats ::
    "request list \<Rightarrow> json \<Rightarrow> string \<Rightarrow> string \<Rightarrow> (error + json) \<times> request list"

text \<open>
  What an extractor returns: an info dict, the value of \<^verbatim>\<open>url_result(url, ie=...,
  video_id=...)\<close>, the value of \<^verbatim>\<open>playlist_result(entries, playlist_id,
  playlist_title)\<close>, or \<^verbatim>\<open>None\<close> when the function ends without a \<^verbatim>\<open>return\<close>.
\<close>

datatype result =
    NoResult
  | Info "(string \<times> json) list"
  | Url_result string string json
  | Playlist_result "result list" json json

subsection \<open>Sequencing with exceptions\<close>

type_synonym 'a action = "state \<Rightarrow> (error + 'a) \<times> state"

definition ok :: "'a \<Rightarrow> 'a action" where
  "ok v s = (Inr v, s)"

definition raise :: "error \<Rightarrow> 'a action" where
  "raise e s = (Inl e, s)"

definition lift :: "error + 'a \<Rightarrow> 'a action" where
  "lift r s = (r, s)"

definition and_then :: "'a action \<Rightarrow> ('a \<Rightarrow> 'b action) \<Rightarrow> 'b action" where
  "and_then m f s = (case m s of (Inl e, s') \<Rightarrow> (Inl e, s') | (Inr v, s') \<Rightarrow> f v s')"

definition bind_err :: "error + 'a \<Rightarrow> ('a \<Rightarrow> error + 'b) \<Rightarrow> error + 'b" where
  "bind_err r f = (case r of Inl e \<Rightarrow> Inl e | Inr v \<Rightarrow> f v)"

definition to_screen :: "string \<Rightarrow> unit action" where
  "to_screen message s = (Inr (), s\<lparr>screen := screen s @ [message]\<rparr>)"

text \<open>The download methods: the request is logged, the server answers.\<close>

definition do_download_json :: "env \<Rightarrow> request \<Rightarrow> json action" where
  "do_download_json E r s = (download_json E (requests s) r, s\<lparr>requests := requests s @ [r]\<rparr>)"

definition do_download_webpage :: "env \<Rightarrow> request \<Rightarrow> string action" where
  "do_download_webpage E r s =
     (download_webpage E (requests s) r, s\<lparr>requests := requests s @ [r]\<rparr>)"

definition do_request_webpage :: "env \<Rightarrow> request \<Rightarrow> unit action" where
  "do_request_webpage E r s =
     (request_webpage E (requests s) r, s\<lparr>requests := requests s @ [r]\<rparr>)"

definition do_extract_video_info ::
  "env \<Rightarrow> string \<Rightarrow> json \<Rightarrow> json \<Rightarrow> ((string \<times> json) list) action" where
  "do_extract_video_info E video_id vod_id inkey s =
     (case extract_video_info E (requests s) video_id vod_id inkey of
        (r, sent) \<Rightarrow> (r, s\<lparr>requests := requests s @ sent\<rparr>))"

definition do_extract_m3u8_formats :: "env \<Rightarrow> json \<Rightarrow> string \<Rightarrow> string \<Rightarrow> json action" where
  "do_extract_m3u8_formats E stream_url video_id ext s =
     (case extract_m3u8_formats E (requests s) stream_url video_id ext of
        (r, sent) \<Rightarrow> (r, s\<lparr>requests := requests s @ sent\<rparr>))"

text \<open>\<^verbatim>\<open>d.update(other)\<close>: a key of \<open>other\<close> replaces the entry or is added.\<close>

definition dict_update :: "(string \<times> json) list \<Rightarrow> (string \<times> json) list \<Rightarrow> (string \<times> json) list" where
  "dict_update d other = fold (\<lambda>(k, v). AList.update k v) other d"

text \<open>
  \<^verbatim>\<open>_search_regex(pattern, string, name, default=None, fatal=False)\<close>: the first group
  of the first match, \<^verbatim>\<open>None\<close> when nothing matches.
\<close>

definition search_regex :: "rx \<Rightarrow> string \<Rightarrow> string option" where
  "search_regex p text = (case re_search p text of None \<Rightarrow> None | Some g \<Rightarrow> map_of g ''1'')"

text \<open>
  \<^verbatim>\<open>_html_search_regex(pattern, string, name, fatal=False)\<close>: as above, the match
  cleaned by \<^verbatim>\<open>clean_html(...).strip()\<close>, which is the collaborator \<open>clean_html\<close>;
  without a match a warning is reported and \<^verbatim>\<open>None\<close> returned.
\<close>

definition html_search_regex :: "env \<Rightarrow> rx \<Rightarrow> string \<Rightarrow> json" where
  "html_search_regex E p text =
     (case search_regex p text of Some v \<Rightarrow> JStr (clean_html E v) | None \<Rightarrow> JNull)"

text \<open>\<^verbatim>\<open>for x in v\<close>: the elements of a list, the characters of a string, the keys of a dict.\<close>

fun py_iter :: "json \<Rightarrow> error + json list" where
  "py_iter (JArr xs) = Inr xs"
| "py_iter (JStr s) = Inr (map (\<lambda>c. JStr [c]) s)"
| "py_iter (JObj kvs) = Inr (map JStr (remdups (map fst kvs)))"
| "py_iter _ = Inl TypeError"

text \<open>\<^verbatim>\<open>m.group(name)\<close>: \<^verbatim>\<open>None\<close> for a group that took no part in the match.\<close>

definition group :: "groups \<Rightarrow> string \<Rightarrow> json" where
  "group g n = (case map_of g n of None \<Rightarrow> JNull | Some v \<Rightarrow> JStr v)"

section \<open>VLiveIE: a single video\<close>

definition APP_ID :: string where
  "APP_ID = ''8c6cc7b45d2568fb668be6e05b6e5a3b''"

text \<open>\<^verbatim>\<open>VLiveIE.ie_key()\<close>, the class name without its suffix.\<close>

definition VLiveIE_ie_key :: string where
  "VLiveIE_ie_key = ''VLive''"

subsection \<open>Login\<close>

definition LOGIN_URL :: string where
  "LOGIN_URL = ''https://www.vlive.tv/auth/email/login''"

definition login_info_request :: request where
  "login_info_request =
     \<lparr>req_url = ''https://www.vlive.tv/auth/loginInfo'', req_id = JNull,
      req_note = Some ''Downloading login info'', req_query = [],
      req_headers = [(''Referer'', ''https://www.vlive.tv/home'')], req_data = None\<rparr>"

definition login_cookies_request :: request where
  "login_cookies_request =
     \<lparr>req_url = LOGIN_URL, req_id = JNull, req_note = Some ''Downloading login cookies'',
      req_query = [], req_headers = [], req_data = None\<rparr>"

definition login_form_request :: "string \<Rightarrow> string \<Rightarrow> request" where
  "login_form_request email password =
     \<lparr>req_url = LOGIN_URL, req_id = JNull, req_note = Some ''Logging in'',
      req_query = [],
      req_headers = [(''Referer'', LOGIN_URL),
                     (''Content-Type'', ''application/x-www-form-urlencoded'')],
      req_data = Some [(''email'', email), (''pwd'', password)]\<rparr>"

text \<open>
  The local function \<^verbatim>\<open>is_logged_in\<close>:
  \<^verbatim>\<open>try_get(login_info, lambda x: x['message']['login'], bool) or False\<close>.
\<close>

definition is_logged_in :: "env \<Rightarrow> bool action" where
  "is_logged_in E =
     and_then (do_download_json E login_info_request) (\<lambda>login_info.
     and_then (lift (try_get login_info
                       (\<lambda>x. bind_err (subscript x ''message'') (\<lambda>m. subscript m ''login''))
                       is_bool)) (\<lambda>v.
     ok (truthy v)))"

definition login :: "env \<Rightarrow> unit action" where
  "login E =
     (case get_login_info E of
        (Some email, Some password) \<Rightarrow>
          and_then (do_request_webpage E login_cookies_request) (\<lambda>_.
          and_then (do_download_webpage E (login_form_request email password)) (\<lambda>_.
          and_then (is_logged_in E) (\<lambda>logged_in.
          if \<not> logged_in then raise (ExtractorError ''Unable to log in'' True None)
          else ok ())))
      | _ \<Rightarrow> ok ())"

definition real_initialize :: "env \<Rightarrow> unit action" where
  "real_initialize E = login E"

subsection \<open>The API call\<close>

definition VLiveIE_call_api :: "env \<Rightarrow> string \<Rightarrow> string \<Rightarrow> string option \<Rightarrow> json action" where
  "VLiveIE_call_api E path_template video_id field_list =
     do_download_json E
       \<lparr>req_url = ''https://www.vlive.tv/globalv-web/vam-web/'' @ fmt path_template [video_id],
        req_id = JStr video_id,
        req_note = Some (fmt ''Downloading %s JSON metadata''
                     [hd (split_on CHR ''-'' (last (split_on CHR ''/'' path_template)))]),
        req_query =
          (case field_list of
             Some f \<Rightarrow> if f \<noteq> [] then [(''appId'', JStr APP_ID), (''fields'', JStr f)]
                       else [(''appId'', JStr APP_ID)]
           | None \<Rightarrow> [(''appId'', JStr APP_ID)]),
        req_headers = [(''Referer'', ''https://www.vlive.tv/'')],
        req_data = None\<rparr>"

subsection \<open>Extraction\<close>

definition POST_FIELDS :: string where
  "POST_FIELDS = ''author{nickname},channel{channelCode,channelName},officialVideo{commentCount,exposeStatus,likeCount,playCount,playTime,status,title,type,vodId}''"

text \<open>
  Modelled from the spec: \<^verbatim>\<open>raise_login_required\<close> of \<^verbatim>\<open>InfoExtractor\<close> is not in
  the module; it raises the distinct "login required" error that carries the message it
  is given, here \<open>LoginRequired\<close>.
\<close>

definition raise_login_required :: "json \<Rightarrow> 'a action" where
  "raise_login_required msg = raise (LoginRequired msg)"

text \<open>
  The \<^verbatim>\<open>try\<close> block around the first call: an \<^verbatim>\<open>ExtractorError\<close> caused by an
  HTTP error with code 403 is replaced, every other exception is raised again.
  \<open>json_loads E body\<close> is \<^verbatim>\<open>json.loads(e.cause.read().decode())\<close>.
\<close>

definition fetch_post :: "env \<Rightarrow> string \<Rightarrow> json action" where
  "fetch_post E video_id s =
     (case VLiveIE_call_api E ''post/v1.0/officialVideoPost-%s'' video_id (Some POST_FIELDS) s of
        (Inl (ExtractorError msg expected (Some (HTTPError code body))), s') \<Rightarrow>
          if code = 403
          then and_then (lift (bind_err (json_loads E body) (\<lambda>j. subscript j ''message'')))
                 raise_login_required s'
          else (Inl (ExtractorError msg expected (Some (HTTPError code body))), s')
      | r \<Rightarrow> r)"

definition get_common_fields :: "env \<Rightarrow> json \<Rightarrow> json \<Rightarrow> error + (string \<times> json) list" where
  "get_common_fields E post video =
     bind_err (get post ''channel'') (\<lambda>c.
     let channel = (if truthy c then c else JObj []) in
     bind_err (get video ''title'') (\<lambda>title.
     bind_err (bind_err (get_default post ''author'' (JObj [])) (\<lambda>a. get a ''nickname'')) (\<lambda>creator.
     bind_err (get channel ''channelName'') (\<lambda>channel_name.
     bind_err (get channel ''channelCode'') (\<lambda>channel_id.
     bind_err (get video ''playTime'') (\<lambda>play_time.
     bind_err (get video ''playCount'') (\<lambda>play_count.
     bind_err (get video ''likeCount'') (\<lambda>like_count.
     bind_err (get video ''commentCount'') (\<lambda>comment_count.
     Inr [(''title'', title),
          (''creator'', creator),
          (''channel'', channel_name),
          (''channel_id'', channel_id),
          (''duration'', int_or_none E play_time),
          (''view_count'', int_or_none E play_count),
          (''like_count'', int_or_none E like_count),
          (''comment_count'', int_or_none E comment_count)])))))))))"

definition extract_vod :: "env \<Rightarrow> string \<Rightarrow> json \<Rightarrow> json \<Rightarrow> result action" where
  "extract_vod E video_id post video =
     and_then (VLiveIE_call_api E ''video/v1.0/vod/%s/inkey'' video_id None) (\<lambda>r.
     and_then (lift (subscript r ''inkey'')) (\<lambda>inkey.
     and_then (lift (subscript video ''vodId'')) (\<lambda>vod_id.
     and_then (lift (get_common_fields E post video)) (\<lambda>common.
     and_then (do_extract_video_info E video_id vod_id inkey) (\<lambda>info.
     ok (Info (merge_dicts E common info)))))))"

definition extract_on_air :: "env \<Rightarrow> string \<Rightarrow> json \<Rightarrow> json \<Rightarrow> result action" where
  "extract_on_air E video_id post video =
     and_then (VLiveIE_call_api E ''old/v3/live/%s/playInfo'' video_id None) (\<lambda>r.
     and_then (lift (bind_err (subscript r ''result'') (\<lambda>x. subscript x ''adaptiveStreamUrl'')))
       (\<lambda>stream_url.
     and_then (do_extract_m3u8_formats E stream_url video_id ''mp4'') (\<lambda>formats.
     and_then (lift (get_common_fields E post video)) (\<lambda>info.
     and_then (lift (bind_err (subscript video ''title'') (live_title E))) (\<lambda>title.
     ok (Info (dict_update info
           [(''title'', title), (''id'', JStr video_id), (''formats'', formats),
            (''is_live'', JBool True)])))))))"

text \<open>
  \<^verbatim>\<open>'Unknown status ' + status\<close> is a string only when \<^verbatim>\<open>status\<close> is one;
  otherwise the concatenation raises \<^verbatim>\<open>TypeError\<close>.
\<close>

definition unknown_status :: "json \<Rightarrow> 'a action" where
  "unknown_status status =
     (case status of
        JStr st \<Rightarrow> raise (ExtractorError (''Unknown status '' @ st) False None)
      | _ \<Rightarrow> raise TypeError)"

definition VLiveIE_real_extract :: "env \<Rightarrow> string \<Rightarrow> result action" where
  "VLiveIE_real_extract E url =
     and_then (lift (match_id VLiveIE_VALID_URL url)) (\<lambda>video_id.
     and_then (fetch_post E video_id) (\<lambda>post.
     and_then (lift (subscript post ''officialVideo'')) (\<lambda>video.
     and_then (lift (get video ''type'')) (\<lambda>video_type.
     if video_type = JStr ''VOD'' then extract_vod E video_id post video
     else if video_type = JStr ''LIVE'' then
       and_then (lift (get video ''status'')) (\<lambda>status.
       if status = JStr ''ON_AIR'' then extract_on_air E video_id post video
       else if status = JStr ''ENDED'' then
         raise (ExtractorError ''Uploading for replay. Please wait...'' True None)
       else if status = JStr ''RESERVED'' then
         raise (ExtractorError ''Coming soon!'' True None)
       else
         and_then (lift (get video ''exposeStatus'')) (\<lambda>expose_status.
         if expose_status = JStr ''CANCEL'' then
           raise (ExtractorError
                    ''We are sorry, but the live broadcast has been canceled.'' True None)
         else unknown_status status))
     else ok NoResult))))"

section \<open>VLiveChannelIE: the videos of a channel\<close>

definition VLiveChannelIE_call_api ::
  "env \<Rightarrow> string \<Rightarrow> string \<Rightarrow> json \<Rightarrow> string \<Rightarrow> (string \<times> json) list \<Rightarrow> json action" where
  "VLiveChannelIE_call_api E path channel_key_suffix channel_value note_text query =
     and_then
       (do_download_json E
          \<lparr>req_url = ''http://api.vfan.vlive.tv/vproxy/channelplus/'' @ path,
           req_id = channel_value,
           req_note = Some (''Downloading '' @ note_text),
           req_query =
             dict_update
               [(''app_id'', JStr APP_ID), (''channel'' @ channel_key_suffix, channel_value)]
               query,
           req_headers = [],
           req_data = None\<rparr>)
       (\<lambda>r. lift (subscript r ''result''))"

text \<open>The call of the loop body, for page \<open>page_num\<close>.\<close>

definition get_channel_video_list :: "env \<Rightarrow> json \<Rightarrow> nat \<Rightarrow> json action" where
  "get_channel_video_list E channel_seq page_num =
     VLiveChannelIE_call_api E ''getChannelVideoList'' ''Seq'' channel_seq
       (fmt ''channel list page #%d'' [str_of_nat page_num])
       [(''maxNumOfRows'', JInt 100), (''pageNo'', JInt (int page_num))]"

text \<open>
  The inner loop \<^verbatim>\<open>for video in videos\<close>: an item without a true \<^verbatim>\<open>videoSeq\<close>
  is passed over, the others are appended to \<open>entries\<close>.
\<close>

fun channel_entries :: "env \<Rightarrow> json list \<Rightarrow> result list \<Rightarrow> error + result list" where
  "channel_entries E [] entries = Inr entries"
| "channel_entries E (video # videos) entries =
     (case get video ''videoSeq'' of
        Inl e \<Rightarrow> Inl e
      | Inr seq \<Rightarrow>
          if \<not> truthy seq then channel_entries E videos entries
          else
            let video_id = compat_str (py_repr E) seq in
            channel_entries E videos
              (entries @
               [Url_result (fmt ''http://www.vlive.tv/video/%s'' [video_id]) VLiveIE_ie_key
                  (JStr video_id)]))"

text \<open>
  The outer loop \<^verbatim>\<open>for page_num in itertools.count(1)\<close> has no bound of its own: it
  ends at a \<^verbatim>\<open>break\<close> or an exception. \<open>None\<close> is the run that never ends.
\<close>

partial_function (option) channel_pages ::
  "env \<Rightarrow> json \<Rightarrow> nat \<Rightarrow> json \<Rightarrow> result list \<Rightarrow> state \<Rightarrow>
   ((error + json \<times> result list) \<times> state) option" where
  "channel_pages E channel_seq page_num channel_name entries s =
     (case get_channel_video_list E channel_seq page_num s of
        (Inl e, s') \<Rightarrow> Some (Inl e, s')
      | (Inr video_list, s') \<Rightarrow>
          (case (if \<not> truthy channel_name
                 then try_get video_list
                        (\<lambda>x. bind_err (subscript x ''channelInfo'') (\<lambda>i. subscript i ''channelName''))
                        is_str
                 else Inr channel_name) of
             Inl e \<Rightarrow> Some (Inl e, s')
           | Inr channel_name' \<Rightarrow>
               (case try_get video_list (\<lambda>x. subscript x ''videoList'') is_list of
                  Inl e \<Rightarrow> Some (Inl e, s')
                | Inr videos \<Rightarrow>
                    if \<not> truthy videos then Some (Inr (channel_name', entries), s')
                    else
                      (case bind_err (py_iter videos) (\<lambda>vs. channel_entries E vs entries) of
                         Inl e \<Rightarrow> Some (Inl e, s')
                       | Inr entries' \<Rightarrow>
                           channel_pages E channel_seq (Suc page_num) channel_name' entries' s'))))"

definition VLiveChannelIE_real_extract :: "env \<Rightarrow> string \<Rightarrow> state \<Rightarrow> ((error + result) \<times> state) option" where
  "VLiveChannelIE_real_extract E url s =
     (case match_id VLiveChannelIE_VALID_URL url of
        Inl e \<Rightarrow> Some (Inl e, s)
      | Inr channel_code \<Rightarrow>
          (case and_then
                  (VLiveChannelIE_call_api E ''decodeChannelCode'' ''Code'' (JStr channel_code)
                     ''decode channel code'' [])
                  (\<lambda>r. lift (subscript r ''channelSeq'')) s of
             (Inl e, s') \<Rightarrow> Some (Inl e, s')
           | (Inr channel_seq, s') \<Rightarrow>
               (case channel_pages E channel_seq 1 JNull [] s' of
                  None \<Rightarrow> None
                | Some (Inl e, s'') \<Rightarrow> Some (Inl e, s'')
                | Some (Inr (channel_name, entries), s'') \<Rightarrow>
                    Some (Inr (Playlist_result entries (JStr channel_code) channel_name), s''))))"

section \<open>VLivePlaylistIE: a playlist page\<close>

definition VIDEO_URL_TEMPLATE :: string where
  "VIDEO_URL_TEMPLATE = ''http://www.vlive.tv/video/%s''"

definition build_video_result :: "env \<Rightarrow> json \<Rightarrow> string \<Rightarrow> result action" where
  "build_video_result E video_id message =
     and_then (to_screen message) (\<lambda>_.
     ok (Url_result (fmt VIDEO_URL_TEMPLATE [compat_str (py_repr E) video_id]) VLiveIE_ie_key
           video_id))"

definition playlist_page_request :: "env \<Rightarrow> json \<Rightarrow> json \<Rightarrow> request" where
  "playlist_page_request E video_id playlist_id =
     \<lparr>req_url = fmt ''http://www.vlive.tv/video/%s/playlist/%s''
                  [compat_str (py_repr E) video_id, compat_str (py_repr E) playlist_id],
      req_id = playlist_id, req_note = None, req_query = [], req_headers = [],
      req_data = None\<rparr>"

definition playlist_entry :: "env \<Rightarrow> json \<Rightarrow> result" where
  "playlist_entry E item_id =
     Url_result (fmt VIDEO_URL_TEMPLATE [compat_str (py_repr E) item_id]) VLiveIE_ie_key
       (JStr (compat_str (py_repr E) item_id))"

definition VLivePlaylistIE_real_extract :: "env \<Rightarrow> string \<Rightarrow> result action" where
  "VLivePlaylistIE_real_extract E url =
     (case re_match VLivePlaylistIE_VALID_URL url of
        None \<Rightarrow> raise AttributeError
      | Some mobj \<Rightarrow>
          let video_id = group mobj ''video_id''; playlist_id = group mobj ''id'' in
          if truthy (case map_of (params E) ''noplaylist'' of None \<Rightarrow> JNull | Some v \<Rightarrow> v) then
            build_video_result E video_id
              (fmt ''Downloading just video %s because of --no-playlist''
                 [compat_str (py_repr E) video_id])
          else
            and_then (to_screen
              (fmt ''Downloading playlist %s - add --no-playlist to just download video''
                 [compat_str (py_repr E) playlist_id])) (\<lambda>_.
            and_then (do_download_webpage E (playlist_page_request E video_id playlist_id))
              (\<lambda>webpage.
            let raw_item_ids = search_regex playlist_video_seqs webpage in
            if raw_item_ids = None \<or> raw_item_ids = Some [] then
              build_video_result E video_id
                (fmt ''Downloading just video %s because no playlist was found''
                   [compat_str (py_repr E) video_id])
            else
              and_then (lift (parse_json E (the raw_item_ids))) (\<lambda>item_ids.
              and_then (lift (py_iter item_ids)) (\<lambda>items.
              let entries = map (playlist_entry E) items;
                  playlist_name = html_search_regex E playlist_title webpage in
              ok (Playlist_result entries playlist_id playlist_name))))))"

section \<open>Vocabulary of the properties\<close>

text \<open>A non-empty string of decimal digits.\<close>

definition numeric :: "string \<Rightarrow> bool" where
  "numeric v = (v \<noteq> [] \<and> list_all (in_cls digit) v)"




text \<open>A JSON object, a Python dict.\<close>

fun is_dict :: "json \<Rightarrow> bool" where
  "is_dict (JObj kvs) = True"
| "is_dict _ = False"

text \<open>
  The \<open>videoSeq\<close> of an item of a video list, \<open>JNull\<close> (Python's \<^verbatim>\<open>None\<close>) for an
  item without one.
\<close>

definition video_seq :: "json \<Rightarrow> json" where
  "video_seq video =
     (case video of
        JObj kvs \<Rightarrow> (case map_of kvs ''videoSeq'' of None \<Rightarrow> JNull | Some v \<Rightarrow> v)
      | _ \<Rightarrow> JNull)"

text \<open>The reference to the video with identifier \<open>v\<close>, as a channel listing emits it.\<close>

definition video_entry :: "string \<Rightarrow> result" where
  "video_entry v = Url_result (''http://www.vlive.tv/video/'' @ v) ''VLive'' (JStr v)"

text \<open>
  The identifiers a list of items stands for: the printed \<open>videoSeq\<close> of every item that
  has a true one, in the order of the items, each as often as it occurs.
\<close>

definition listed_ids :: "env \<Rightarrow> json list \<Rightarrow> string list" where
  "listed_ids E videos = map (compat_str (py_repr E)) (filter truthy (map video_seq videos))"

text \<open>
  The video list of an answered page: the items of \<open>videoList\<close> when the page has one that
  is a list, no items otherwise.
\<close>

definition page_videos :: "json \<Rightarrow> json list" where
  "page_videos page =
     (case page of
        JObj kvs \<Rightarrow> (case map_of kvs ''videoList'' of Some (JArr vs) \<Rightarrow> vs | _ \<Rightarrow> [])
      | _ \<Rightarrow> [])"

text \<open>
  The channel name a page carries, and the name kept after a page: the first true one.
\<close>

definition page_channel_name :: "json \<Rightarrow> json" where
  "page_channel_name page =
     (case page of
        JObj kvs \<Rightarrow>
          (case map_of kvs ''channelInfo'' of
             Some (JObj i) \<Rightarrow> (case map_of i ''channelName'' of Some (JStr n) \<Rightarrow> JStr n | _ \<Rightarrow> JNull)
           | _ \<Rightarrow> JNull)
      | _ \<Rightarrow> JNull)"

definition next_name :: "json \<Rightarrow> json \<Rightarrow> json" where
  "next_name name page = (if truthy name then name else page_channel_name page)"

text \<open>
  The two requests of a channel extraction as they are logged: the one that decodes the
  channel code and the one for page \<open>page_num\<close> of the listing.
\<close>

definition decode_request :: "string \<Rightarrow> request" where
  "decode_request channel_code =
     \<lparr>req_url = ''http://api.vfan.vlive.tv/vproxy/channelplus/decodeChannelCode'',
      req_id = JStr channel_code,
      req_note = Some ''Downloading decode channel code'',
      req_query = [(''app_id'', JStr APP_ID), (''channelCode'', JStr channel_code)],
      req_headers = [], req_data = None\<rparr>"

definition channel_list_request :: "json \<Rightarrow> nat \<Rightarrow> request" where
  "channel_list_request channel_seq page_num =
     \<lparr>req_url = ''http://api.vfan.vlive.tv/vproxy/channelplus/getChannelVideoList'',
      req_id = channel_seq,
      req_note = Some (''Downloading channel list page #'' @ str_of_nat page_num),
      req_query = [(''app_id'', JStr APP_ID), (''channelSeq'', channel_seq),
                   (''maxNumOfRows'', JInt 100), (''pageNo'', JInt (int page_num))],
      req_headers = [], req_data = None\<rparr>"

text \<open>The \<open>result\<close> member of an answer, as \<^verbatim>\<open>_call_api\<close> returns it.\<close>

definition api_result :: "error + json \<Rightarrow> error + json" where
  "api_result answer = bind_err answer (\<lambda>r. subscript r ''result'')"

text \<open>
  The server answers the requests for the pages \<open>page_num\<close>, \<open>page_num + 1\<close>, ... with the
  given pages, each request sent after the ones before it.
\<close>

fun serves :: "env \<Rightarrow> json \<Rightarrow> request list \<Rightarrow> nat \<Rightarrow> json list \<Rightarrow> bool" where
  "serves E channel_seq sent page_num [] = True"
| "serves E channel_seq sent page_num (p # ps) =
     (api_result (download_json E sent (channel_list_request channel_seq page_num)) = Inr p
      \<and> serves E channel_seq (sent @ [channel_list_request channel_seq page_num]) (Suc page_num) ps)"

text \<open>
  A value that prints as a non-empty string of digits: a positive integer or a numeric
  string.
\<close>

fun numeric_seq :: "json \<Rightarrow> bool" where
  "numeric_seq (JInt i) = (0 < i)"
| "numeric_seq (JStr s) = numeric s"
| "numeric_seq _ = False"

section \<open>Example worlds\<close>

text \<open>A world in which no collaborator is of any help; the examples below override parts of it.\<close>

definition silent_env :: env where
  "silent_env =
     \<lparr>download_json = (\<lambda>sent r. Inl (OtherError ''no answer'')),
      download_webpage = (\<lambda>sent r. Inl (OtherError ''no answer'')),
      request_webpage = (\<lambda>sent r. Inl (OtherError ''no answer'')),
      get_login_info = (None, None),
      params = [],
      json_loads = (\<lambda>text. Inl ValueError),
      parse_json = (\<lambda>text. Inl (ExtractorError ''Failed to parse JSON'' False None)),
      clean_html = (\<lambda>text. text),
      py_repr = (\<lambda>v. ''?''),
      int_or_none = (\<lambda>v. v),
      merge_dicts = (\<lambda>a b. a @ b),
      live_title = (\<lambda>v. Inr v),
      extract_video_info = (\<lambda>sent video_id vod_id inkey. (Inl (OtherError ''no answer''), [])),
      extract_m3u8_formats = (\<lambda>sent stream_url video_id ext. (Inl (OtherError ''no answer''), []))\<rparr>"

definition start :: state where
  "start = \<lparr>requests = [], screen = []\<rparr>"

text \<open>
  A server whose post record is a live broadcast that has ended and is also marked as
  cancelled.
\<close>

definition ended_env :: env where
  "ended_env = silent_env
     \<lparr>download_json := (\<lambda>sent r. Inr (JObj [(''officialVideo'',
        JObj [(''type'', JStr ''LIVE''), (''status'', JStr ''ENDED''),
              (''exposeStatus'', JStr ''CANCEL'')])]))\<rparr>"

text \<open>The same for an announced broadcast and for one in a state the module does not know.\<close>

definition reserved_env :: env where
  "reserved_env = silent_env
     \<lparr>download_json := (\<lambda>sent r. Inr (JObj [(''officialVideo'',
        JObj [(''type'', JStr ''LIVE''), (''status'', JStr ''RESERVED''),
              (''exposeStatus'', JStr ''CANCEL'')])]))\<rparr>"

definition cancelled_env :: env where
  "cancelled_env = silent_env
     \<lparr>download_json := (\<lambda>sent r. Inr (JObj [(''officialVideo'',
        JObj [(''type'', JStr ''LIVE''), (''status'', JStr ''PAUSED''),
              (''exposeStatus'', JStr ''CANCEL'')])]))\<rparr>"

text \<open>A post record of a type that is neither \<open>VOD\<close> nor \<open>LIVE\<close>.\<close>

definition unknown_type_env :: env where
  "unknown_type_env = silent_env
     \<lparr>download_json := (\<lambda>sent r. Inr (JObj [(''officialVideo'',
        JObj [(''type'', JStr ''REHEARSAL''), (''status'', JStr ''PAUSED'')])]))\<rparr>"

text \<open>A live record that carries no status at all.\<close>

definition no_status_env :: env where
  "no_status_env = silent_env
     \<lparr>download_json := (\<lambda>sent r. Inr (JObj [(''officialVideo'',
        JObj [(''type'', JStr ''LIVE'')])]))\<rparr>"

text \<open>A server that refuses the post record with 403 and a message, and one that fails with 500.\<close>

definition forbidden_env :: env where
  "forbidden_env = silent_env
     \<lparr>download_json := (\<lambda>sent r. Inl (ExtractorError ''Unable to download JSON metadata'' False
        (Some (HTTPError 403 ''{\"message\": \"Please sign in\"}'')))),
      json_loads := (\<lambda>body. if body = ''{\"message\": \"Please sign in\"}''
         then Inr (JObj [(''message'', JStr ''Please sign in'')]) else Inl ValueError)\<rparr>"

definition broken_env :: env where
  "broken_env = silent_env
     \<lparr>download_json := (\<lambda>sent r. Inl (ExtractorError ''Unable to download JSON metadata'' False
        (Some (HTTPError 500 ''''))))\<rparr>"


text \<open>
  A downloader run with \<^verbatim>\<open>--no-playlist\<close> (and a server that answers nothing), and a
  server whose playlist page is \<open>page\<close>, with a JSON parser that knows the one text the
  examples need.
\<close>

definition no_playlist_env :: env where
  "no_playlist_env = silent_env\<lparr>params := [(''noplaylist'', JBool True)]\<rparr>"


text \<open>
  A channel of three videos on two pages; the video \<open>1326\<close> is listed on both. The third
  page has no video list.
\<close>

definition channel_env :: env where
  "channel_env = silent_env
     \<lparr>download_json := (\<lambda>sent r.
        if req_url r = ''http://api.vfan.vlive.tv/vproxy/channelplus/decodeChannelCode'' then
          Inr (JObj [(''result'', JObj [(''channelSeq'', JInt 6)])])
        else if map_of (req_query r) ''pageNo'' = Some (JInt 1) then
          Inr (JObj [(''result'', JObj
            [(''channelInfo'', JObj [(''channelName'', JStr ''EXO'')]),
             (''videoList'', JArr [JObj [(''videoSeq'', JInt 1326)],
                                   JObj [(''videoSeq'', JInt 9)]])])])
        else if map_of (req_query r) ''pageNo'' = Some (JInt 2) then
          Inr (JObj [(''result'', JObj
            [(''videoList'', JArr [JObj [(''videoSeq'', JInt 1326)]])])])
        else Inr (JObj [(''result'', JObj [])]))\<rparr>"


section \<open>The URL matchers\<close>

lemma takeWhile_run:
  "list_all (in_cls k) ds \<Longrightarrow> rest = [] \<or> \<not> in_cls k (hd rest) \<Longrightarrow>
   takeWhile (in_cls k) (ds @ rest) = ds"
  by (cases rest) (auto simp: takeWhile_append2 list_all_iff)

lemma rmatch_group_plus:
  assumes "takeWhile (in_cls c) s = ds" "ds \<noteq> []"
  shows "rmatch (Group n (Plus c)) (g, s) =
         ((n, ds) # g, drop (length ds) s) #
         map (\<lambda>k. ((n, take k s) # g, drop k s)) (rev [1 ..< length ds])"
proof -
  have len: "length ds \<le> length s"
    using assms(1) length_takeWhile_le[of "in_cls c" s] by simp
  have ds: "take (length ds) s = ds"
    using assms(1) by (metis takeWhile_eq_take)
  have "1 \<le> length ds" using assms(2) by (cases ds) auto
  then have "rev [1 ..< Suc (length ds)] = length ds # rev [1 ..< length ds]"
    by simp
  then show ?thesis
    using assms(1) len ds by (simp add: comp_def)
qed

lemma rmatch_group_run:
  assumes "ds \<noteq> []" and "list_all (in_cls k) ds" and "rest = [] \<or> \<not> in_cls k (hd rest)"
  shows "\<exists>more. rmatch (Group n (Plus k)) (g, ds @ rest) = ((n, ds) # g, rest) # more"
  using rmatch_group_plus[OF takeWhile_run[OF assms(2,3)] assms(1), of n g] by simp

text \<open>
  C8. A single-video URL is a scheme, an optional \<open>www.\<close> or \<open>m.\<close>, the host, \<open>video\<close>
  or \<open>embed\<close>, and the digits \<open>ds\<close> (followed by anything that does not go on with a
  digit). Whatever the scheme, the subdomain and the form, the matcher extracts \<open>ds\<close>.
\<close>

theorem single_video_url_id:
  assumes "scheme \<in> {''http'', ''https''}" and "sub \<in> {'''', ''www.'', ''m.''}"
    and "kind \<in> {''video'', ''embed''}" and "numeric ds"
    and "rest = [] \<or> \<not> in_cls digit (hd rest)"
  shows "match_id VLiveIE_VALID_URL
           (scheme @ ''://'' @ sub @ ''vlive.tv/'' @ kind @ ''/'' @ ds @ rest) = Inr ds"
proof -
  have ne: "ds \<noteq> []" and all: "list_all (in_cls digit) ds"
    using assms(4) by (simp_all add: numeric_def)
  obtain more where m:
    "rmatch (Group ''id'' (Plus digit)) ([], ds @ rest) = ([(''id'', ds)], rest) # more"
    using rmatch_group_run[OF ne all assms(5)] by blast
  have "re_match VLiveIE_VALID_URL
          (scheme @ ''://'' @ sub @ ''vlive.tv/'' @ kind @ ''/'' @ ds @ rest) = Some [(''id'', ds)]"
    using assms(1,2,3)
    apply (elim insertE emptyE)
    apply (simp_all add: re_match_def VLiveIE_VALID_URL_def m del: rmatch.simps(6,7))
    done
  then show ?thesis by (simp add: match_id_def)
qed

theorem single_video_url_id_witness:
  "numeric ''1326'' \<and>
   match_id VLiveIE_VALID_URL ''https://www.vlive.tv/embed/1326'' = Inr ''1326'' \<and>
   match_id VLiveIE_VALID_URL ''http://vlive.tv/video/1326?x=1'' = Inr ''1326''"
proof -
  have n: "numeric ''1326''" by (simp add: numeric_def digit_def)
  show ?thesis
    using n single_video_url_id[of "''https''" "''www.''" "''embed''" "''1326''" "''''"]
      single_video_url_id[of "''http''" "''''" "''video''" "''1326''" "''?x=1''"]
    by (simp add: digit_def)
qed

section \<open>Extraction of a single video\<close>

lemma and_then_lift [simp]:
  "and_then (lift (Inr v)) f s = f v s" "and_then (lift (Inl e)) f s = (Inl e, s)"
  by (simp_all add: and_then_def lift_def)

lemma and_then_step:
  "m s = (Inr v, s') \<Longrightarrow> and_then m f s = f v s'"
  "m s = (Inl e, s') \<Longrightarrow> and_then m f s = (Inl e, s')"
  by (simp_all add: and_then_def)

lemma pair_fst: "fst p = a \<Longrightarrow> p = (a, snd p)"
  by auto

text \<open>What the extractor does with a fetched record of type \<open>LIVE\<close>.\<close>

lemma live_branch:
  assumes "match_id VLiveIE_VALID_URL url = Inr video_id"
    and "fetch_post E video_id s = (Inr (JObj post), s')"
    and "map_of post ''officialVideo'' = Some (JObj video)"
    and "map_of video ''type'' = Some (JStr ''LIVE'')"
  shows "VLiveIE_real_extract E url s =
     (let status = (case map_of video ''status'' of None \<Rightarrow> JNull | Some v \<Rightarrow> v);
          expose_status = (case map_of video ''exposeStatus'' of None \<Rightarrow> JNull | Some v \<Rightarrow> v)
      in
       if status = JStr ''ON_AIR'' then extract_on_air E video_id (JObj post) (JObj video) s'
       else if status = JStr ''ENDED'' then
         (Inl (ExtractorError ''Uploading for replay. Please wait...'' True None), s')
       else if status = JStr ''RESERVED'' then
         (Inl (ExtractorError ''Coming soon!'' True None), s')
       else if expose_status = JStr ''CANCEL'' then
         (Inl (ExtractorError ''We are sorry, but the live broadcast has been canceled.'' True
                 None), s')
       else unknown_status status s')"
  using assms
  by (simp add: VLiveIE_real_extract_def and_then_step get_def raise_def Let_def
      split: option.splits)

text \<open>And with a fetched record of any type but \<open>VOD\<close> and \<open>LIVE\<close>.\<close>

lemma other_type_branch:
  assumes "match_id VLiveIE_VALID_URL url = Inr video_id"
    and "fetch_post E video_id s = (Inr (JObj post), s')"
    and "map_of post ''officialVideo'' = Some (JObj video)"
    and "map_of video ''type'' \<noteq> Some (JStr ''VOD'')"
    and "map_of video ''type'' \<noteq> Some (JStr ''LIVE'')"
  shows "VLiveIE_real_extract E url s = (Inr NoResult, s')"
  using assms
  by (simp add: VLiveIE_real_extract_def and_then_step get_def ok_def split: option.splits)

lemma example_url: "match_id VLiveIE_VALID_URL ''http://www.vlive.tv/video/1326'' = Inr ''1326''"
  by (simp add: match_id_def re_match_def VLiveIE_VALID_URL_def digit_def)

lemma call_api_answer:
  "download_json E (requests s)
     \<lparr>req_url = ''https://www.vlive.tv/globalv-web/vam-web/post/v1.0/officialVideoPost-'' @ video_id,
      req_id = JStr video_id, req_note = Some ''Downloading officialVideoPost JSON metadata'',
      req_query = [(''appId'', JStr APP_ID), (''fields'', JStr POST_FIELDS)],
      req_headers = [(''Referer'', ''https://www.vlive.tv/'')], req_data = None\<rparr> = r
   \<Longrightarrow> fst (VLiveIE_call_api E ''post/v1.0/officialVideoPost-%s'' video_id (Some POST_FIELDS) s) = r"
  by (simp add: VLiveIE_call_api_def do_download_json_def POST_FIELDS_def)

lemma fetch_post_answer:
  "download_json E (requests s)
     \<lparr>req_url = ''https://www.vlive.tv/globalv-web/vam-web/post/v1.0/officialVideoPost-'' @ video_id,
      req_id = JStr video_id, req_note = Some ''Downloading officialVideoPost JSON metadata'',
      req_query = [(''appId'', JStr APP_ID), (''fields'', JStr POST_FIELDS)],
      req_headers = [(''Referer'', ''https://www.vlive.tv/'')], req_data = None\<rparr> = Inr post
   \<Longrightarrow> fst (fetch_post E video_id s) = Inr post"
  by (simp add: fetch_post_def VLiveIE_call_api_def do_download_json_def POST_FIELDS_def)

text \<open>
  C1. For a fetched record of type \<open>LIVE\<close>: with status \<open>ENDED\<close> the extraction raises the
  expected "Uploading for replay" error, with status \<open>RESERVED\<close> the expected "Coming soon!"
  error, in both cases whatever \<open>exposeStatus\<close> is (so also when it is \<open>CANCEL\<close>); the
  "canceled" error of \<open>exposeStatus = CANCEL\<close> is raised when the status is none of
  \<open>ON_AIR\<close>, \<open>ENDED\<close> and \<open>RESERVED\<close>.
\<close>

theorem live_status_precedence:
  assumes "match_id VLiveIE_VALID_URL url = Inr video_id"
    and "fetch_post E video_id s = (Inr (JObj post), s')"
    and "map_of post ''officialVideo'' = Some (JObj video)"
    and "map_of video ''type'' = Some (JStr ''LIVE'')"
  shows "(map_of video ''status'' = Some (JStr ''ENDED'') \<longrightarrow>
            VLiveIE_real_extract E url s =
              (Inl (ExtractorError ''Uploading for replay. Please wait...'' True None), s'))
       \<and> (map_of video ''status'' = Some (JStr ''RESERVED'') \<longrightarrow>
            VLiveIE_real_extract E url s = (Inl (ExtractorError ''Coming soon!'' True None), s'))
       \<and> (map_of video ''status'' \<notin>
              {Some (JStr ''ON_AIR''), Some (JStr ''ENDED''), Some (JStr ''RESERVED'')}
            \<and> map_of video ''exposeStatus'' = Some (JStr ''CANCEL'') \<longrightarrow>
            VLiveIE_real_extract E url s =
              (Inl (ExtractorError ''We are sorry, but the live broadcast has been canceled.''
                      True None), s'))"
  using live_branch[OF assms] by (auto simp: Let_def split: option.splits)

theorem live_status_precedence_witness:
  "fst (VLiveIE_real_extract ended_env ''http://www.vlive.tv/video/1326'' start) =
     Inl (ExtractorError ''Uploading for replay. Please wait...'' True None)
   \<and> fst (VLiveIE_real_extract reserved_env ''http://www.vlive.tv/video/1326'' start) =
     Inl (ExtractorError ''Coming soon!'' True None)
   \<and> fst (VLiveIE_real_extract cancelled_env ''http://www.vlive.tv/video/1326'' start) =
     Inl (ExtractorError ''We are sorry, but the live broadcast has been canceled.'' True None)"
proof -
  have a: "fetch_post ended_env ''1326'' start =
      (Inr (JObj [(''officialVideo'',
         JObj [(''type'', JStr ''LIVE''), (''status'', JStr ''ENDED''),
               (''exposeStatus'', JStr ''CANCEL'')])]),
       snd (fetch_post ended_env ''1326'' start))"
    by (rule pair_fst, rule fetch_post_answer) (simp add: ended_env_def silent_env_def)
  have b: "fetch_post reserved_env ''1326'' start =
      (Inr (JObj [(''officialVideo'',
         JObj [(''type'', JStr ''LIVE''), (''status'', JStr ''RESERVED''),
               (''exposeStatus'', JStr ''CANCEL'')])]),
       snd (fetch_post reserved_env ''1326'' start))"
    by (rule pair_fst, rule fetch_post_answer) (simp add: reserved_env_def silent_env_def)
  have c: "fetch_post cancelled_env ''1326'' start =
      (Inr (JObj [(''officialVideo'',
         JObj [(''type'', JStr ''LIVE''), (''status'', JStr ''PAUSED''),
               (''exposeStatus'', JStr ''CANCEL'')])]),
       snd (fetch_post cancelled_env ''1326'' start))"
    by (rule pair_fst, rule fetch_post_answer) (simp add: cancelled_env_def silent_env_def)
  show ?thesis
    using live_status_precedence[OF example_url a] live_status_precedence[OF example_url b]
      live_status_precedence[OF example_url c]
    by simp
qed

text \<open>
  C2. The claim is that every record outside the enumerated branches makes the extraction
  raise the generic error that names the status. The code does so only under type \<open>LIVE\<close>
  (the last \<^verbatim>\<open>else\<close> of the status chain). A record of another type, here
  \<open>REHEARSAL\<close>, falls through the \<^verbatim>\<open>if/elif\<close> on the type, and the extraction returns
  \<^verbatim>\<open>None\<close> without raising; a \<open>LIVE\<close> record without a status makes the message
  concatenation itself fail with \<^verbatim>\<open>TypeError\<close>.
\<close>

theorem unknown_type_returns_nothing:
  "fst (VLiveIE_real_extract unknown_type_env ''http://www.vlive.tv/video/1326'' start) =
     Inr NoResult
   \<and> fst (VLiveIE_real_extract no_status_env ''http://www.vlive.tv/video/1326'' start) =
     Inl TypeError"
proof -
  have a: "fetch_post unknown_type_env ''1326'' start =
      (Inr (JObj [(''officialVideo'',
         JObj [(''type'', JStr ''REHEARSAL''), (''status'', JStr ''PAUSED'')])]),
       snd (fetch_post unknown_type_env ''1326'' start))"
    by (rule pair_fst, rule fetch_post_answer) (simp add: unknown_type_env_def silent_env_def)
  have b: "fetch_post no_status_env ''1326'' start =
      (Inr (JObj [(''officialVideo'', JObj [(''type'', JStr ''LIVE'')])]),
       snd (fetch_post no_status_env ''1326'' start))"
    by (rule pair_fst, rule fetch_post_answer) (simp add: no_status_env_def silent_env_def)
  show ?thesis
    using other_type_branch[OF example_url a] live_branch[OF example_url b]
    by (simp add: unknown_status_def raise_def)
qed

text \<open>
  C4. When the call for the post record fails with an \<^verbatim>\<open>ExtractorError\<close> caused by
  HTTP 403 and the response body is a JSON object with a \<open>message\<close>, the extraction raises
  the login-required error with that message. When the call fails in any other way, the
  extraction fails with the very same exception.
\<close>

theorem forbidden_post_login_required:
  assumes "match_id VLiveIE_VALID_URL url = Inr video_id"
    and "VLiveIE_call_api E ''post/v1.0/officialVideoPost-%s'' video_id (Some POST_FIELDS) s =
           (Inl e, s')"
  shows "(e = ExtractorError msg expected (Some (HTTPError 403 body)) \<and>
            json_loads E body = Inr (JObj j) \<and> map_of j ''message'' = Some m \<longrightarrow>
            VLiveIE_real_extract E url s = (Inl (LoginRequired m), s'))
       \<and> ((\<forall>msg expected body. e \<noteq> ExtractorError msg expected (Some (HTTPError 403 body))) \<longrightarrow>
            VLiveIE_real_extract E url s = (Inl e, s'))"
proof (intro conjI impI)
  assume h: "e = ExtractorError msg expected (Some (HTTPError 403 body)) \<and>
            json_loads E body = Inr (JObj j) \<and> map_of j ''message'' = Some m"
  then have "fetch_post E video_id s = (Inl (LoginRequired m), s')"
    using assms(2)
    by (simp add: fetch_post_def bind_err_def raise_login_required_def raise_def)
  then show "VLiveIE_real_extract E url s = (Inl (LoginRequired m), s')"
    using assms(1) by (simp add: VLiveIE_real_extract_def and_then_step)
next
  assume h: "\<forall>msg expected body. e \<noteq> ExtractorError msg expected (Some (HTTPError 403 body))"
  have "fetch_post E video_id s = (Inl e, s')"
    using assms(2) h
    by (auto simp: fetch_post_def split: error.splits option.splits cause.splits)
  then show "VLiveIE_real_extract E url s = (Inl e, s')"
    using assms(1) by (simp add: VLiveIE_real_extract_def and_then_step)
qed

theorem forbidden_post_login_required_witness:
  "fst (VLiveIE_real_extract forbidden_env ''http://www.vlive.tv/video/1326'' start) =
     Inl (LoginRequired (JStr ''Please sign in''))
   \<and> fst (VLiveIE_real_extract broken_env ''http://www.vlive.tv/video/1326'' start) =
     Inl (ExtractorError ''Unable to download JSON metadata'' False (Some (HTTPError 500 [])))"
proof -
  have a: "VLiveIE_call_api forbidden_env ''post/v1.0/officialVideoPost-%s'' ''1326''
             (Some POST_FIELDS) start =
      (Inl (ExtractorError ''Unable to download JSON metadata'' False
        (Some (HTTPError 403 ''{\"message\": \"Please sign in\"}''))),
       snd (VLiveIE_call_api forbidden_env ''post/v1.0/officialVideoPost-%s'' ''1326''
              (Some POST_FIELDS) start))"
    by (rule pair_fst, rule call_api_answer) (simp add: forbidden_env_def silent_env_def)
  have b: "VLiveIE_call_api broken_env ''post/v1.0/officialVideoPost-%s'' ''1326''
             (Some POST_FIELDS) start =
      (Inl (ExtractorError ''Unable to download JSON metadata'' False (Some (HTTPError 500 []))),
       snd (VLiveIE_call_api broken_env ''post/v1.0/officialVideoPost-%s'' ''1326''
              (Some POST_FIELDS) start))"
    by (rule pair_fst, rule call_api_answer) (simp add: broken_env_def silent_env_def)
  have j: "json_loads forbidden_env ''{\"message\": \"Please sign in\"}'' =
      Inr (JObj [(''message'', JStr ''Please sign in'')])"
    by (simp add: forbidden_env_def silent_env_def)
  have a': "VLiveIE_real_extract forbidden_env ''http://www.vlive.tv/video/1326'' start =
      (Inl (LoginRequired (JStr ''Please sign in'')),
       snd (VLiveIE_call_api forbidden_env ''post/v1.0/officialVideoPost-%s'' ''1326''
              (Some POST_FIELDS) start))"
    using forbidden_post_login_required[OF example_url a, THEN conjunct1, rule_format,
        OF conjI[OF refl conjI[OF j]]]
    by simp
  have b': "VLiveIE_real_extract broken_env ''http://www.vlive.tv/video/1326'' start =
      (Inl (ExtractorError ''Unable to download JSON metadata'' False (Some (HTTPError 500 []))),
       snd (VLiveIE_call_api broken_env ''post/v1.0/officialVideoPost-%s'' ''1326''
              (Some POST_FIELDS) start))"
    using forbidden_post_login_required[OF example_url b, THEN conjunct2] by simp
  show ?thesis
    by (simp add: a' b')
qed

section \<open>Login\<close>





section \<open>Playlists\<close>

lemma playlist_url_groups:
  assumes "scheme \<in> {''http'', ''https''}" and "sub \<in> {'''', ''www.'', ''m.''}"
    and "numeric vid" and "numeric pid"
    and "rest = [] \<or> \<not> in_cls digit (hd rest)"
  shows "re_match VLivePlaylistIE_VALID_URL
           (scheme @ ''://'' @ sub @ ''vlive.tv/video/'' @ vid @ ''/playlist/'' @ pid @ rest) =
         Some [(''id'', pid), (''video_id'', vid)]"
proof -
  have nv: "vid \<noteq> []" and av: "list_all (in_cls digit) vid"
    using assms(3) by (simp_all add: numeric_def)
  have np: "pid \<noteq> []" and ap: "list_all (in_cls digit) pid"
    using assms(4) by (simp_all add: numeric_def)
  have slash: "\<not> in_cls digit (hd (''/playlist/'' @ pid @ rest))"
    by (simp add: digit_def)
  obtain more1 where m1:
    "rmatch (Group ''video_id'' (Plus digit)) ([], vid @ ''/playlist/'' @ pid @ rest) =
       ([(''video_id'', vid)], ''/playlist/'' @ pid @ rest) # more1"
    using rmatch_group_run[OF nv av disjI2[OF slash], of "''video_id''" "[]"] by blast
  obtain more2 where m2:
    "rmatch (Group ''id'' (Plus digit)) ([(''video_id'', vid)], pid @ rest) =
       ([(''id'', pid), (''video_id'', vid)], rest) # more2"
    using rmatch_group_run[OF np ap assms(5), of "''id''" "[(''video_id'', vid)]"] by blast
  show ?thesis
    using assms(1,2)
    apply (elim insertE emptyE)
    apply (simp_all add: re_match_def VLivePlaylistIE_VALID_URL_def m1[unfolded append.simps] m2
        del: rmatch.simps(6,7))
    done
qed

lemma noplaylist_result:
  assumes "re_match VLivePlaylistIE_VALID_URL url = Some [(''id'', pid), (''video_id'', vid)]"
    and "map_of (params E) ''noplaylist'' = Some flag" and "truthy flag"
  shows "VLivePlaylistIE_real_extract E url s =
         (Inr (Url_result (''http://www.vlive.tv/video/'' @ vid) VLiveIE_ie_key (JStr vid)),
          s\<lparr>screen := screen s @
               [''Downloading just video '' @ vid @ '' because of --no-playlist'']\<rparr>)"
  using assms
  by (simp add: VLivePlaylistIE_real_extract_def group_def VIDEO_URL_TEMPLATE_def
      build_video_result_def and_then_def to_screen_def ok_def)






text \<open>
  C6. For every playlist URL, when the downloader's \<open>noplaylist\<close> option is set (true), the
  result is the single-video reference for the URL's video id; one line is printed and
  no request is sent.
\<close>

theorem noplaylist_skips_page_fetch:
  assumes "scheme \<in> {''http'', ''https''}" and "sub \<in> {'''', ''www.'', ''m.''}"
    and "numeric vid" and "numeric pid"
    and "rest = [] \<or> \<not> in_cls digit (hd rest)"
    and "map_of (params E) ''noplaylist'' = Some flag" and "truthy flag"
  shows "VLivePlaylistIE_real_extract E
           (scheme @ ''://'' @ sub @ ''vlive.tv/video/'' @ vid @ ''/playlist/'' @ pid @ rest) s =
         (Inr (Url_result (''http://www.vlive.tv/video/'' @ vid) VLiveIE_ie_key (JStr vid)),
          s\<lparr>screen := screen s @
               [''Downloading just video '' @ vid @ '' because of --no-playlist'']\<rparr>)
       \<and> requests (snd (VLivePlaylistIE_real_extract E
           (scheme @ ''://'' @ sub @ ''vlive.tv/video/'' @ vid @ ''/playlist/'' @ pid @ rest) s)) =
         requests s"
  using noplaylist_result[OF playlist_url_groups[OF assms(1-5)] assms(6,7), of s]
  by simp

theorem noplaylist_skips_page_fetch_witness:
  "VLivePlaylistIE_real_extract no_playlist_env
     ''https://www.vlive.tv/video/117956/playlist/117963'' start =
   (Inr (Url_result ''http://www.vlive.tv/video/117956'' VLiveIE_ie_key (JStr ''117956'')),
    \<lparr>requests = [],
     screen = [''Downloading just video 117956 because of --no-playlist'']\<rparr>)"
proof -
  have n: "numeric ''117956''" "numeric ''117963''" by (simp_all add: numeric_def digit_def)
  show ?thesis
    using noplaylist_skips_page_fetch[of "''https''" "''www.''" "''117956''" "''117963''" "''''" no_playlist_env
        "JBool True" start, THEN conjunct1] n
    by (simp add: no_playlist_env_def silent_env_def start_def)
qed




section \<open>The videos of a channel\<close>

text \<open>
  The inner loop over the items of a page that are dicts: it never raises, and appends one
  reference for each identifier the items stand for.
\<close>

lemma channel_entries_dicts:
  "list_all is_dict videos \<Longrightarrow>
   channel_entries E videos entries = Inr (entries @ map video_entry (listed_ids E videos))"
proof (induction videos arbitrary: entries)
  case Nil
  then show ?case by (simp add: listed_ids_def)
next
  case (Cons video videos)
  then obtain kvs where v: "video = JObj kvs" by (cases video) auto
  from Cons have r: "\<And>es. channel_entries E videos es = Inr (es @ map video_entry (listed_ids E videos))"
    by simp
  show ?case
    by (simp add: v r get_def listed_ids_def video_seq_def video_entry_def VLiveIE_ie_key_def
        Let_def split: option.splits)
qed

lemma get_channel_video_list_answer:
  "get_channel_video_list E cs n s =
     (api_result (download_json E (requests s) (channel_list_request cs n)),
      s\<lparr>requests := requests s @ [channel_list_request cs n]\<rparr>)"
  by (simp add: get_channel_video_list_def VLiveChannelIE_call_api_def and_then_def
      do_download_json_def lift_def api_result_def bind_err_def channel_list_request_def
      dict_update_def split: sum.splits)

lemma name_step:
  "(if \<not> truthy name
    then try_get page (\<lambda>x. bind_err (subscript x ''channelInfo'') (\<lambda>i. subscript i ''channelName''))
           is_str
    else Inr name) = Inr (next_name name page)"
  apply (cases page)
  apply (auto simp: next_name_def page_channel_name_def try_get_def bind_err_def
      split: option.splits json.splits sum.splits error.splits)
  done


lemma video_list_empty:
  "page_videos page = [] \<Longrightarrow>
   \<exists>v. try_get page (\<lambda>x. subscript x ''videoList'') is_list = Inr v \<and> \<not> truthy v"
  apply (cases page)
  apply (auto simp: page_videos_def try_get_def split: option.splits json.splits)
  done

lemma video_list_full:
  "page_videos page \<noteq> [] \<Longrightarrow>
   try_get page (\<lambda>x. subscript x ''videoList'') is_list = Inr (JArr (page_videos page))"
  apply (cases page)
  apply (auto simp: page_videos_def try_get_def split: option.splits json.splits)
  done

lemma channel_pages_last:
  assumes "api_result (download_json E (requests s) (channel_list_request cs n)) = Inr final"
    and "page_videos final = []"
  shows "channel_pages E cs n name entries s =
         Some (Inr (next_name name final, entries),
               s\<lparr>requests := requests s @ [channel_list_request cs n]\<rparr>)"
proof -
  obtain v where v: "try_get final (\<lambda>x. subscript x ''videoList'') is_list = Inr v" "\<not> truthy v"
    using video_list_empty[OF assms(2)] by blast
  show ?thesis
    apply (subst channel_pages.simps)
    apply (simp only: get_channel_video_list_answer assms(1) name_step v)
    apply (simp add: v)
    done
qed

lemma channel_pages_next:
  assumes "api_result (download_json E (requests s) (channel_list_request cs n)) = Inr page"
    and "page_videos page \<noteq> []" and "list_all is_dict (page_videos page)"
  shows "channel_pages E cs n name entries s =
         channel_pages E cs (Suc n) (next_name name page)
           (entries @ map video_entry (listed_ids E (page_videos page)))
           (s\<lparr>requests := requests s @ [channel_list_request cs n]\<rparr>)"
  apply (subst channel_pages.simps)
  apply (simp only: get_channel_video_list_answer assms(1) name_step
      video_list_full[OF assms(2)])
  apply (simp add: assms(2) bind_err_def channel_entries_dicts[OF assms(3)]
      video_list_full[OF assms(2)])
  done

lemma listed_ids_append: "listed_ids E (xs @ ys) = listed_ids E xs @ listed_ids E ys"
  by (simp add: listed_ids_def)

lemma channel_pages_run:
  "serves E cs (requests s) n (pages @ [final]) \<Longrightarrow>
   list_all (\<lambda>p. page_videos p \<noteq> [] \<and> list_all is_dict (page_videos p)) pages \<Longrightarrow>
   page_videos final = [] \<Longrightarrow>
   channel_pages E cs n name entries s =
     Some (Inr (foldl next_name name (pages @ [final]),
                entries @ map video_entry (listed_ids E (concat (map page_videos pages)))),
           s\<lparr>requests := requests s @
                map (channel_list_request cs) [n ..< n + Suc (length pages)]\<rparr>)"
proof (induction pages arbitrary: n name entries s)
  case Nil
  then show ?case
    by (simp add: channel_pages_last listed_ids_def)
next
  case (Cons page pages)
  from Cons.prems(1) have a: "api_result (download_json E (requests s) (channel_list_request cs n)) = Inr page"
    and b: "serves E cs (requests (s\<lparr>requests := requests s @ [channel_list_request cs n]\<rparr>))
              (Suc n) (pages @ [final])"
    by simp_all
  from Cons.prems(2) have c: "page_videos page \<noteq> []" "list_all is_dict (page_videos page)"
    and d: "list_all (\<lambda>p. page_videos p \<noteq> [] \<and> list_all is_dict (page_videos p)) pages"
    by simp_all
  have u: "[n ..< n + Suc (length (page # pages))] = n # [Suc n ..< Suc n + Suc (length pages)]"
    using upt_conv_Cons[of n "n + Suc (length (page # pages))"] by (simp del: upt_Suc)
  show ?case
    unfolding channel_pages_next[OF a c] Cons.IH[OF b d Cons.prems(3)] u
    by (simp add: listed_ids_append)
qed

lemma str_of_nat_examples:
  "str_of_nat 1326 = ''1326''" "str_of_nat 9 = ''9''"
  by (simp_all add: str_of_nat.simps digit_char_def)

text \<open>
  C10. An item of a page's video list whose \<open>videoSeq\<close> is missing or false (\<^verbatim>\<open>None\<close>,
  \<open>0\<close>, the empty string) is passed over: the loop goes on with the next item, nothing
  is raised and nothing is appended for it. For a list of dicts the entries appended are
  exactly those of the items with a true \<open>videoSeq\<close>, so there are as many fewer entries
  than items as there are items without one.
\<close>

theorem falsy_video_seq_skipped:
  "(map_of item ''videoSeq'' = None \<longrightarrow>
      channel_entries E (JObj item # videos) entries = channel_entries E videos entries)
   \<and> (map_of item ''videoSeq'' = Some v \<and> \<not> truthy v \<longrightarrow>
      channel_entries E (JObj item # videos) entries = channel_entries E videos entries)
   \<and> (list_all is_dict videos \<longrightarrow>
      channel_entries E videos entries = Inr (entries @ map video_entry (listed_ids E videos))
      \<and> length (listed_ids E videos) =
          length videos - length (filter (\<lambda>video. \<not> truthy (video_seq video)) videos))"
proof (intro conjI impI)
  assume "map_of item ''videoSeq'' = None"
  then show "channel_entries E (JObj item # videos) entries = channel_entries E videos entries"
    by (simp add: get_def)
next
  assume "map_of item ''videoSeq'' = Some v \<and> \<not> truthy v"
  then show "channel_entries E (JObj item # videos) entries = channel_entries E videos entries"
    by (simp add: get_def)
next
  assume "list_all is_dict videos"
  then show "channel_entries E videos entries =
      Inr (entries @ map video_entry (listed_ids E videos))"
    by (rule channel_entries_dicts)
next
  have "length (filter (\<lambda>video. truthy (video_seq video)) videos) +
        length (filter (\<lambda>video. \<not> truthy (video_seq video)) videos) = length videos"
    by (rule sum_length_filter_compl)
  then show "length (listed_ids E videos) =
      length videos - length (filter (\<lambda>video. \<not> truthy (video_seq video)) videos)"
    by (simp add: listed_ids_def filter_map comp_def)
qed

theorem falsy_video_seq_skipped_witness:
  "channel_entries silent_env
     [JObj [(''title'', JStr ''teaser'')], JObj [(''videoSeq'', JInt 9)]] [] =
     Inr [Url_result ''http://www.vlive.tv/video/9'' ''VLive'' (JStr ''9'')]
   \<and> channel_entries silent_env
     [JObj [(''videoSeq'', JInt 0)], JObj [(''videoSeq'', JInt 9)]] [] =
     Inr [Url_result ''http://www.vlive.tv/video/9'' ''VLive'' (JStr ''9'')]
   \<and> channel_entries silent_env
     [JObj [(''videoSeq'', JInt 1326)], JObj [(''title'', JStr ''teaser'')],
      JObj [(''videoSeq'', JInt 0)], JObj [(''videoSeq'', JNull)],
      JObj [(''videoSeq'', JStr '''')], JObj [(''videoSeq'', JInt 9)]] [] =
     Inr [Url_result ''http://www.vlive.tv/video/1326'' ''VLive'' (JStr ''1326''),
          Url_result ''http://www.vlive.tv/video/9'' ''VLive'' (JStr ''9'')]"
proof -
  have a: "channel_entries silent_env
     [JObj [(''title'', JStr ''teaser'')], JObj [(''videoSeq'', JInt 9)]] [] =
     Inr [Url_result ''http://www.vlive.tv/video/9'' ''VLive'' (JStr ''9'')]"
    using falsy_video_seq_skipped[of "[(''title'', JStr ''teaser'')]" silent_env
        "[JObj [(''videoSeq'', JInt 9)]]" "[]", THEN conjunct1]
    by (simp add: get_def str_of_int_def str_of_nat_examples VLiveIE_ie_key_def Let_def)
  have b: "channel_entries silent_env
     [JObj [(''videoSeq'', JInt 0)], JObj [(''videoSeq'', JInt 9)]] [] =
     Inr [Url_result ''http://www.vlive.tv/video/9'' ''VLive'' (JStr ''9'')]"
    using falsy_video_seq_skipped[of "[(''videoSeq'', JInt 0)]" silent_env
        "[JObj [(''videoSeq'', JInt 9)]]" "[]" "JInt 0", THEN conjunct2, THEN conjunct1]
    by (simp add: get_def str_of_int_def str_of_nat_examples VLiveIE_ie_key_def Let_def)
  have c: "channel_entries silent_env
     [JObj [(''videoSeq'', JInt 1326)], JObj [(''title'', JStr ''teaser'')],
      JObj [(''videoSeq'', JInt 0)], JObj [(''videoSeq'', JNull)],
      JObj [(''videoSeq'', JStr '''')], JObj [(''videoSeq'', JInt 9)]] [] =
     Inr [Url_result ''http://www.vlive.tv/video/1326'' ''VLive'' (JStr ''1326''),
          Url_result ''http://www.vlive.tv/video/9'' ''VLive'' (JStr ''9'')]"
    using falsy_video_seq_skipped[of _ silent_env
      "[JObj [(''videoSeq'', JInt 1326)], JObj [(''title'', JStr ''teaser'')],
      JObj [(''videoSeq'', JInt 0)], JObj [(''videoSeq'', JNull)],
      JObj [(''videoSeq'', JStr '''')], JObj [(''videoSeq'', JInt 9)]]" "[]",
      THEN conjunct2, THEN conjunct2]
    by (simp add: listed_ids_def video_seq_def video_entry_def str_of_int_def
        str_of_nat_examples)
  show ?thesis using a b c by simp
qed

text \<open>The run of the extractor over a channel whose listing ends.\<close>

lemma channel_extract_run:
  assumes "match_id VLiveChannelIE_VALID_URL url = Inr code"
    and "bind_err (api_result (download_json E (requests s) (decode_request code)))
           (\<lambda>r. subscript r ''channelSeq'') = Inr cs"
    and "serves E cs (requests s @ [decode_request code]) 1 (pages @ [final])"
    and "list_all (\<lambda>p. page_videos p \<noteq> [] \<and> list_all is_dict (page_videos p)) pages"
    and "page_videos final = []"
  shows "VLiveChannelIE_real_extract E url s =
     Some (Inr (Playlist_result
                  (map video_entry (listed_ids E (concat (map page_videos pages))))
                  (JStr code) (foldl next_name JNull (pages @ [final]))),
           s\<lparr>requests := requests s @ decode_request code #
                map (channel_list_request cs) [1 ..< Suc (Suc (length pages))]\<rparr>)"
proof -
  let ?s1 = "s\<lparr>requests := requests s @ [decode_request code]\<rparr>"
  have c: "VLiveChannelIE_call_api E ''decodeChannelCode'' ''Code'' (JStr code)
             ''decode channel code'' [] s =
           (api_result (download_json E (requests s) (decode_request code)), ?s1)"
    by (simp add: VLiveChannelIE_call_api_def and_then_def do_download_json_def lift_def
        api_result_def bind_err_def decode_request_def dict_update_def split: sum.splits)
  have d: "and_then
             (VLiveChannelIE_call_api E ''decodeChannelCode'' ''Code'' (JStr code)
                ''decode channel code'' [])
             (\<lambda>r. lift (subscript r ''channelSeq'')) s = (Inr cs, ?s1)"
    using assms(2)
    by (cases "api_result (download_json E (requests s) (decode_request code))")
       (simp_all add: and_then_def c lift_def bind_err_def)
  have p: "channel_pages E cs 1 JNull [] ?s1 =
     Some (Inr (foldl next_name JNull (pages @ [final]),
                [] @ map video_entry (listed_ids E (concat (map page_videos pages)))),
           ?s1\<lparr>requests := requests ?s1 @
                map (channel_list_request cs) [1 ..< 1 + Suc (length pages)]\<rparr>)"
    by (rule channel_pages_run) (use assms(3-5) in simp_all)
  show ?thesis
    using p by (simp add: VLiveChannelIE_real_extract_def assms(1) d del: upt_Suc)
qed

text \<open>
  C3. A channel whose pages \<open>1, ..., k\<close> have a non-empty video list (of dicts) and whose
  page \<open>k + 1\<close> has an empty video list or none: the extraction ends, after exactly the
  requests for the pages \<open>1, ..., k + 1\<close>, each asking for \<open>maxNumOfRows = 100\<close> and its
  own \<open>pageNo\<close>; the entries are the identifiers of the pages \<open>1, ..., k\<close> in the order
  of the pages and of the items on them, each as often as it is listed.
\<close>

theorem channel_pagination:
  assumes "match_id VLiveChannelIE_VALID_URL url = Inr code"
    and "bind_err (api_result (download_json E (requests s) (decode_request code)))
           (\<lambda>r. subscript r ''channelSeq'') = Inr cs"
    and "serves E cs (requests s @ [decode_request code]) 1 (pages @ [final])"
    and "list_all (\<lambda>p. page_videos p \<noteq> [] \<and> list_all is_dict (page_videos p)) pages"
    and "page_videos final = []"
  shows "VLiveChannelIE_real_extract E url s =
     Some (Inr (Playlist_result
                  (map video_entry (listed_ids E (concat (map page_videos pages))))
                  (JStr code) (foldl next_name JNull (pages @ [final]))),
           s\<lparr>requests := requests s @ decode_request code #
                map (channel_list_request cs) [1 ..< Suc (Suc (length pages))]\<rparr>)
   \<and> map (\<lambda>r. (map_of (req_query r) ''maxNumOfRows'', map_of (req_query r) ''pageNo''))
       (map (channel_list_request cs) [1 ..< Suc (Suc (length pages))]) =
     map (\<lambda>i. (Some (JInt 100), Some (JInt (int i)))) [1 ..< Suc (Suc (length pages))]"
  using channel_extract_run[OF assms]
  by (simp add: channel_list_request_def comp_def del: upt_Suc)

lemma example_channel_url:
  "match_id VLiveChannelIE_VALID_URL ''http://channels.vlive.tv/FCD4B'' = Inr ''FCD4B''"
  by (simp add: match_id_def re_match_def VLiveChannelIE_VALID_URL_def digit_upper_def)

theorem channel_pagination_witness:
  "VLiveChannelIE_real_extract channel_env ''http://channels.vlive.tv/FCD4B'' start =
     Some (Inr (Playlist_result
                  [Url_result ''http://www.vlive.tv/video/1326'' ''VLive'' (JStr ''1326''),
                   Url_result ''http://www.vlive.tv/video/9'' ''VLive'' (JStr ''9''),
                   Url_result ''http://www.vlive.tv/video/1326'' ''VLive'' (JStr ''1326'')]
                  (JStr ''FCD4B'') (JStr ''EXO'')),
           \<lparr>requests = [decode_request ''FCD4B'', channel_list_request (JInt 6) 1,
                        channel_list_request (JInt 6) 2, channel_list_request (JInt 6) 3],
            screen = []\<rparr>)"
proof -
  let ?p1 = "JObj [(''channelInfo'', JObj [(''channelName'', JStr ''EXO'')]),
             (''videoList'', JArr [JObj [(''videoSeq'', JInt 1326)],
                                   JObj [(''videoSeq'', JInt 9)]])]"
  let ?p2 = "JObj [(''videoList'', JArr [JObj [(''videoSeq'', JInt 1326)]])]"
  have d: "bind_err (api_result (download_json channel_env (requests start)
              (decode_request ''FCD4B''))) (\<lambda>r. subscript r ''channelSeq'') = Inr (JInt 6)"
    by (simp add: channel_env_def silent_env_def decode_request_def api_result_def bind_err_def)
  have v: "serves channel_env (JInt 6) (requests start @ [decode_request ''FCD4B'']) 1
             ([?p1, ?p2] @ [JObj []])"
    by (simp add: channel_env_def silent_env_def channel_list_request_def api_result_def
        bind_err_def)
  have f: "list_all (\<lambda>p. page_videos p \<noteq> [] \<and> list_all is_dict (page_videos p)) [?p1, ?p2]"
    by (simp add: page_videos_def)
  have e: "page_videos (JObj []) = []"
    by (simp add: page_videos_def)
  show ?thesis
    using channel_pagination[OF example_channel_url d v f e, THEN conjunct1]
    by (simp add: listed_ids_def page_videos_def video_seq_def video_entry_def str_of_int_def
        str_of_nat_examples next_name_def page_channel_name_def start_def
        numeral_2_eq_2 numeral_3_eq_3)
qed

section \<open>Identifiers\<close>




lemma numeric_seq_truthy: "numeric_seq v \<Longrightarrow> truthy v"
  by (cases v) (auto simp: numeric_def)
















end
